theory Spec2Isabelle
  imports Complex_Main
begin

section \<open>Data model of sprites.py\<close>

text \<open>
  The components of a \<open>pygame.math.Vector2\<close> and the constants of the settings module
  are Python floats; they are modelled as real numbers. The vector arithmetic of
  \<open>update\<close> is exact here, where the code rounds each result to a double; the float
  products of \<open>get_image\<close> are an argument of the model instead. Rect coordinates and
  tick counts are integers.
\<close>

record vec =
  vec_x :: real
  vec_y :: real

definition vec_add :: "vec \<Rightarrow> vec \<Rightarrow> vec" where
  "vec_add a b = \<lparr>vec_x = vec_x a + vec_x b, vec_y = vec_y a + vec_y b\<rparr>"

definition vec_scale :: "real \<Rightarrow> vec \<Rightarrow> vec" where
  "vec_scale k a = \<lparr>vec_x = k * vec_x a, vec_y = k * vec_y a\<rparr>"

text \<open>A \<open>pygame.Surface\<close>: only its size is observed by the code modelled here.\<close>

record surface =
  surf_w :: int
  surf_h :: int

text \<open>A \<open>pygame.Rect\<close>: top-left corner and size.\<close>

record rect =
  rect_x :: int
  rect_y :: int
  rect_w :: int
  rect_h :: int

definition rect_left :: "rect \<Rightarrow> int" where
  "rect_left r = rect_x r"

definition rect_bottom :: "rect \<Rightarrow> int" where
  "rect_bottom r = rect_y r + rect_h r"

definition rect_centerx :: "rect \<Rightarrow> int" where
  "rect_centerx r = rect_x r + rect_w r div 2"

text \<open>\<open>surface.get_rect()\<close>: a rect of the surface's size placed at the origin.\<close>

definition get_rect :: "surface \<Rightarrow> rect" where
  "get_rect img = \<lparr>rect_x = 0, rect_y = 0, rect_w = surf_w img, rect_h = surf_h img\<rparr>"

text \<open>\<open>rect.bottom = b\<close> moves the rect vertically and keeps its size.\<close>

definition set_bottom :: "rect \<Rightarrow> int \<Rightarrow> rect" where
  "set_bottom r b = r\<lparr>rect_y := b - rect_h r\<rparr>"

text \<open>
  Python's \<open>int(f)\<close> on a float, and pygame's conversion of a float coordinate to a
  rect coordinate, both drop the fractional part (rounding toward zero).
\<close>

definition py_int :: "real \<Rightarrow> int" where
  "py_int f = (if 0 \<le> f then \<lfloor>f\<rfloor> else \<lceil>f\<rceil>)"

text \<open>
  \<open>rect.midbottom = v\<close>: the coordinates of \<open>v\<close> are converted to integers, then the
  rect is moved so that its bottom edge is at the second and its horizontal centre
  (\<open>x + w / 2\<close> in integer division) at the first.
\<close>

definition set_midbottom :: "rect \<Rightarrow> vec \<Rightarrow> rect" where
  "set_midbottom r v =
     r\<lparr>rect_x := py_int (vec_x v) - rect_w r div 2,
       rect_y := py_int (vec_y v) - rect_h r\<rparr>"

text \<open>
  The exceptions the modelled code can raise. \<open>ConfigurationError\<close> is the exception
  named by the specification; no code path of sprites.py constructs it.
\<close>

datatype py_error = ZeroDivisionError | IndexError | PygameError | ValueError
  | ConfigurationError

text \<open>The constants read from the settings module \<open>s\<close>, which is a parameter here.\<close>

record settings =
  HEIGHT :: int
  PLAYER_GRAV :: real
  PLAYER_ACC :: real
  PLAYER_FRICTION :: real
  PLAYER_JUMP_VEL :: real
  JUMP_THRESHOLD :: real
  PLAYER_RUN_FREQ :: int
  PLAYER_IDLE_FREQ :: int

section \<open>SpriteSheet.get_image\<close>




section \<open>Sprite groups and collision queries\<close>

text \<open>
  \<open>pygame.sprite.spritecollide(sprite, group, False)\<close> returns the members of the group
  whose rect intersects the sprite's rect and removes nothing. A group is modelled as
  the list of its members' rects. Two rects intersect when neither is empty and their
  extents overlap on both axes.
\<close>

definition colliderect :: "rect \<Rightarrow> rect \<Rightarrow> bool" where
  "colliderect a b =
     (rect_w a \<noteq> 0 \<and> rect_h a \<noteq> 0 \<and> rect_w b \<noteq> 0 \<and> rect_h b \<noteq> 0
      \<and> min (rect_x a) (rect_x a + rect_w a) < max (rect_x b) (rect_x b + rect_w b)
      \<and> min (rect_y a) (rect_y a + rect_h a) < max (rect_y b) (rect_y b + rect_h b)
      \<and> max (rect_x a) (rect_x a + rect_w a) > min (rect_x b) (rect_x b + rect_w b)
      \<and> max (rect_y a) (rect_y a + rect_h a) > min (rect_y b) (rect_y b + rect_h b))"

definition spritecollide :: "rect \<Rightarrow> rect list \<Rightarrow> rect list" where
  "spritecollide r grp = filter (colliderect r) grp"

record game =
  platforms :: "rect list"
  bases :: "rect list"

section \<open>Player\<close>

text \<open>
  The attributes of a Player that its methods read or write. The frame lists are filled
  once by \<open>load_images\<close>; each left-facing list is the flipped copy of the right-facing
  one. The mask is absent until \<open>animate\<close> first computes it from the current image.
\<close>

record player =
  running :: bool
  jumping :: bool
  isRight :: bool
  current_frame :: int
  last_update :: int
  standing_frames_r :: "surface list"
  standing_frames_l :: "surface list"
  run_frames_r :: "surface list"
  run_frames_l :: "surface list"
  image_p :: surface
  rect :: rect
  pos :: vec
  vel :: vec
  acc_p :: vec
  mask_p :: "surface option"

text \<open>\<open>xs[i]\<close> in Python: a negative index counts from the end, an index out of range raises.\<close>

definition py_index :: "'a list \<Rightarrow> int \<Rightarrow> py_error + 'a" where
  "py_index xs i =
     (if 0 \<le> i \<and> i < int (length xs) then Inr (xs ! nat i)
      else if i < 0 \<and> - int (length xs) \<le> i then Inr (xs ! nat (int (length xs) + i))
      else Inl IndexError)"

text \<open>\<open>a % n\<close> on Python ints raises for \<open>n = 0\<close>; otherwise the result has the sign of \<open>n\<close>.\<close>

definition py_mod :: "int \<Rightarrow> int \<Rightarrow> py_error + int" where
  "py_mod a n = (if n = 0 then Inl ZeroDivisionError else Inr (a mod n))"

subsection \<open>Player.jump and Player.jump_cut\<close>

definition jump :: "settings \<Rightarrow> game \<Rightarrow> player \<Rightarrow> player" where
  "jump cfg g p =
     (let p1 = p\<lparr>rect := (rect p)\<lparr>rect_x := rect_x (rect p) + 2\<rparr>\<rparr>;
          plat_hits = spritecollide (rect p1) (platforms g);
          base_hits = spritecollide (rect p1) (bases g);
          p2 = p1\<lparr>rect := (rect p1)\<lparr>rect_x := rect_x (rect p1) - 2\<rparr>\<rparr>;
          hits = (if plat_hits \<noteq> [] then plat_hits else base_hits)
      in if hits \<noteq> [] \<and> \<not> jumping p2
         then p2\<lparr>jumping := True,
                 vel := (vel p2)\<lparr>vec_y := PLAYER_JUMP_VEL cfg * - 1\<rparr>\<rparr>
         else p2)"

definition jump_cut :: "settings \<Rightarrow> player \<Rightarrow> player" where
  "jump_cut cfg p =
     (if jumping p then
        (if vec_y (vel p) < JUMP_THRESHOLD cfg * - 1
         then p\<lparr>vel := (vel p)\<lparr>vec_y := JUMP_THRESHOLD cfg * - 1\<rparr>\<rparr>
         else p)
      else p)"

subsection \<open>Player.animate\<close>

text \<open>
  The body of the run branch once its interval has elapsed. \<open>frames_l\<close> gives the
  modulus; the frame is taken from \<open>frames_r\<close> when \<open>to_right\<close> holds and from
  \<open>frames_l\<close> otherwise. The idle branch has the same shape over the standing frames.
\<close>

definition next_frame ::
  "int \<Rightarrow> surface list \<Rightarrow> bool \<Rightarrow> surface list \<Rightarrow> surface list \<Rightarrow> player
   \<Rightarrow> py_error + player" where
  "next_frame now frames_len to_right frames_r frames_l p =
     (let p1 = p\<lparr>last_update := now\<rparr> in
      case py_mod (current_frame p1 + 1) (int (length frames_len)) of
        Inl e \<Rightarrow> Inl e
      | Inr i \<Rightarrow>
          (let p2 = p1\<lparr>current_frame := i\<rparr>;
               bottom = rect_bottom (rect p2)
           in case py_index (if to_right then frames_r else frames_l) (current_frame p2) of
                Inl e \<Rightarrow> Inl e
              | Inr img \<Rightarrow>
                  Inr (p2\<lparr>image_p := img, rect := set_bottom (get_rect img) bottom\<rparr>)))"

definition animate_run :: "settings \<Rightarrow> int \<Rightarrow> player \<Rightarrow> py_error + player" where
  "animate_run cfg now p =
     (if running p then
        (if now - last_update p > PLAYER_RUN_FREQ cfg
         then next_frame now (run_frames_l p) (vec_x (vel p) > 0)
                (run_frames_r p) (run_frames_l p) p
         else Inr p)
      else Inr p)"

definition animate_idle :: "settings \<Rightarrow> int \<Rightarrow> player \<Rightarrow> py_error + player" where
  "animate_idle cfg now p =
     (if \<not> jumping p \<and> \<not> running p then
        (if now - last_update p > PLAYER_IDLE_FREQ cfg
         then next_frame now (standing_frames_r p) (vec_x (pos p) > 0)
                (standing_frames_r p) (standing_frames_l p) p
         else Inr p)
      else Inr p)"

definition animate :: "settings \<Rightarrow> int \<Rightarrow> player \<Rightarrow> py_error + player" where
  "animate cfg now p =
     (let p1 = p\<lparr>running := (vec_x (vel p) \<noteq> 0)\<rparr> in
      case animate_run cfg now p1 of
        Inl e \<Rightarrow> Inl e
      | Inr p2 \<Rightarrow>
          (case animate_idle cfg now p2 of
             Inl e \<Rightarrow> Inl e
           | Inr p3 \<Rightarrow> Inr (p3\<lparr>mask_p := Some (image_p p3)\<rparr>)))"

subsection \<open>Player.update\<close>

text \<open>The snapshot returned by \<open>pygame.key.get_pressed()\<close>, at the two keys the code reads.\<close>

record keys =
  K_LEFT :: bool
  K_RIGHT :: bool

text \<open>Gravity, then the acceleration of the held key: left is tested first.\<close>

definition input_step :: "settings \<Rightarrow> keys \<Rightarrow> player \<Rightarrow> player" where
  "input_step cfg ks p =
     (let p1 = p\<lparr>acc_p := \<lparr>vec_x = 0, vec_y = PLAYER_GRAV cfg\<rparr>\<rparr> in
      if K_LEFT ks then p1\<lparr>acc_p := (acc_p p1)\<lparr>vec_x := PLAYER_ACC cfg * - 1\<rparr>\<rparr>
      else if K_RIGHT ks then p1\<lparr>acc_p := (acc_p p1)\<lparr>vec_x := PLAYER_ACC cfg\<rparr>\<rparr>
      else p1)"

text \<open>Friction, the velocity update, and the stop at low speed.\<close>

definition velocity_step :: "settings \<Rightarrow> player \<Rightarrow> player" where
  "velocity_step cfg p =
     (let p1 = p\<lparr>acc_p := (acc_p p)\<lparr>vec_x :=
                  vec_x (acc_p p) + vec_x (vel p) * PLAYER_FRICTION cfg * - 1\<rparr>\<rparr>;
          p2 = p1\<lparr>vel := vec_add (vel p1) (acc_p p1)\<rparr>
      in if \<bar>vec_x (vel p2)\<bar> < 0.1 then p2\<lparr>vel := (vel p2)\<lparr>vec_x := 0\<rparr>\<rparr> else p2)"

text \<open>The position update, the test of the rect's left edge, and the move of the rect.\<close>

definition position_step :: "player \<Rightarrow> player" where
  "position_step p =
     (let p1 = p\<lparr>pos := vec_add (pos p) (vec_add (vel p) (vec_scale 0.5 (acc_p p)))\<rparr>;
          p2 = (if rect_left (rect p1) < 0
                then p1\<lparr>pos := (pos p1)\<lparr>vec_x := real_of_int (rect_left (rect p1) + 50)\<rparr>\<rparr>
                else p1)
      in p2\<lparr>rect := set_midbottom (rect p2) (pos p2)\<rparr>)"

definition update :: "settings \<Rightarrow> keys \<Rightarrow> int \<Rightarrow> player \<Rightarrow> py_error + player" where
  "update cfg ks now p =
     (case animate cfg now p of
        Inl e \<Rightarrow> Inl e
      | Inr p1 \<Rightarrow> Inr (position_step (velocity_step cfg (input_step cfg ks p1))))"

section \<open>Slime\<close>

record slime =
  slime_current_frame :: int
  slime_last_update :: int
  walk_images :: "surface list"
  slime_image :: surface
  slime_mask :: "surface option"

definition slime_animate :: "int \<Rightarrow> slime \<Rightarrow> py_error + slime" where
  "slime_animate now sl =
     (case (if now - slime_last_update sl > 180 then
              (let s1 = sl\<lparr>slime_last_update := now\<rparr> in
               case py_mod (slime_current_frame s1 + 1) (int (length (walk_images s1))) of
                 Inl e \<Rightarrow> Inl e
               | Inr i \<Rightarrow>
                   (let s2 = s1\<lparr>slime_current_frame := i\<rparr> in
                    case py_index (walk_images s2) (slime_current_frame s2) of
                      Inl e \<Rightarrow> Inl e
                    | Inr img \<Rightarrow> Inr (s2\<lparr>slime_image := img\<rparr>)))
            else Inr sl) of
        Inl e \<Rightarrow> Inl e
      | Inr s3 \<Rightarrow> Inr (s3\<lparr>slime_mask := Some (slime_image s3)\<rparr>))"

section \<open>Construction and runs\<close>

text \<open>\<open>rect.center = (cx, cy)\<close> moves the rect and keeps its size.\<close>

definition set_center :: "rect \<Rightarrow> int \<Rightarrow> int \<Rightarrow> rect" where
  "set_center r cx cy = r\<lparr>rect_x := cx - rect_w r div 2, rect_y := cy - rect_h r div 2\<rparr>"

text \<open>
  \<open>Player.__init__\<close>, with the four frame lists that \<open>load_images\<close> reads from disk
  as arguments. Taking the first standing frame raises on an empty list.
\<close>

definition player_init ::
  "settings \<Rightarrow> surface list \<Rightarrow> surface list \<Rightarrow> surface list \<Rightarrow> surface list
   \<Rightarrow> py_error + player" where
  "player_init cfg stand_r stand_l run_r run_l =
     (case py_index stand_r 0 of
        Inl e \<Rightarrow> Inl e
      | Inr img \<Rightarrow>
          Inr \<lparr>running = False, jumping = False, isRight = True,
               current_frame = 0, last_update = 0,
               standing_frames_r = stand_r, standing_frames_l = stand_l,
               run_frames_r = run_r, run_frames_l = run_l,
               image_p = img,
               rect = set_center (get_rect img) 20 (HEIGHT cfg - 50),
               pos = \<lparr>vec_x = 40, vec_y = real_of_int (HEIGHT cfg - 50)\<rparr>,
               vel = \<lparr>vec_x = 0, vec_y = 0\<rparr>,
               acc_p = \<lparr>vec_x = 0, vec_y = 0\<rparr>,
               mask_p = None\<rparr>)"

text \<open>
  What \<open>load_images\<close> establishes: no frame list is empty, and a left-facing list is as
  long as the right-facing list it was flipped from.
\<close>

definition frames_ok :: "player \<Rightarrow> bool" where
  "frames_ok p =
     (standing_frames_r p \<noteq> []
      \<and> length (standing_frames_l p) = length (standing_frames_r p)
      \<and> run_frames_l p \<noteq> []
      \<and> length (run_frames_r p) = length (run_frames_l p))"

text \<open>
  A run of the game loop: one \<open>update\<close> per tick, each with its own key snapshot and
  clock reading; an exception ends the run.
\<close>

fun run_updates :: "settings \<Rightarrow> (keys \<times> int) list \<Rightarrow> player \<Rightarrow> py_error + player" where
  "run_updates cfg [] p = Inr p"
| "run_updates cfg ((ks, now) # ticks) p =
     (case update cfg ks now p of
        Inl e \<Rightarrow> Inl e
      | Inr p' \<Rightarrow> run_updates cfg ticks p')"

definition no_keys :: "keys \<times> int \<Rightarrow> bool" where
  "no_keys t = (\<not> K_LEFT (fst t) \<and> \<not> K_RIGHT (fst t))"

text \<open>
  The horizontal velocity after one tick without a held key, as a function of the
  horizontal velocity before it: friction on a zero acceleration, the velocity update,
  and the stop at low speed.
\<close>

definition friction_tick :: "settings \<Rightarrow> real \<Rightarrow> real" where
  "friction_tick cfg v =
     (let a = 0 + v * PLAYER_FRICTION cfg * - 1;
          v' = v + a
      in if \<bar>v'\<bar> < 0.1 then 0 else v')"

text \<open>
  The calls that the rest of the game makes on a Player, in any order. A jump sees the
  sprite groups as they are at the time of the call.
\<close>

datatype player_call = Update keys int | Animate int | Jump game | JumpCut

fun apply_call :: "settings \<Rightarrow> player_call \<Rightarrow> player \<Rightarrow> py_error + player" where
  "apply_call cfg (Update ks now) p = update cfg ks now p"
| "apply_call cfg (Animate now) p = animate cfg now p"
| "apply_call cfg (Jump g) p = Inr (jump cfg g p)"
| "apply_call cfg JumpCut p = Inr (jump_cut cfg p)"

text \<open>The states of the player after each call of a sequence, up to the first exception.\<close>

fun states_after :: "settings \<Rightarrow> player_call list \<Rightarrow> player \<Rightarrow> player list" where
  "states_after cfg [] p = []"
| "states_after cfg (c # cs) p =
     (case apply_call cfg c p of
        Inl e \<Rightarrow> []
      | Inr p' \<Rightarrow> p' # states_after cfg cs p')"

section \<open>Example inputs\<close>

text \<open>
  A configuration with the constants of the specification's scenarios (gravity 0.8,
  friction 0.12) and frame lists of differing image sizes, for evaluating the model.
\<close>

definition example_settings :: settings where
  "example_settings =
     \<lparr>HEIGHT = 600, PLAYER_GRAV = 0.8, PLAYER_ACC = 0.5, PLAYER_FRICTION = 0.12,
      PLAYER_JUMP_VEL = 20, JUMP_THRESHOLD = 3,
      PLAYER_RUN_FREQ = 60, PLAYER_IDLE_FREQ = 200\<rparr>"

definition example_standing :: "surface list" where
  "example_standing = [\<lparr>surf_w = 90, surf_h = 100\<rparr>, \<lparr>surf_w = 92, surf_h = 104\<rparr>]"

definition example_run :: "surface list" where
  "example_run = [\<lparr>surf_w = 96, surf_h = 98\<rparr>, \<lparr>surf_w = 88, surf_h = 102\<rparr>]"

text \<open>The player that \<open>player_init\<close> builds from these.\<close>

definition example_player :: player where
  "example_player =
     \<lparr>running = False, jumping = False, isRight = True,
      current_frame = 0, last_update = 0,
      standing_frames_r = example_standing, standing_frames_l = example_standing,
      run_frames_r = example_run, run_frames_l = example_run,
      image_p = \<lparr>surf_w = 90, surf_h = 100\<rparr>,
      rect = \<lparr>rect_x = - 25, rect_y = 500, rect_w = 90, rect_h = 100\<rparr>,
      pos = \<lparr>vec_x = 40, vec_y = 550\<rparr>,
      vel = \<lparr>vec_x = 0, vec_y = 0\<rparr>,
      acc_p = \<lparr>vec_x = 0, vec_y = 0\<rparr>,
      mask_p = None\<rparr>"

definition example_game :: game where
  "example_game =
     \<lparr>platforms = [\<lparr>rect_x = 0, rect_y = 590, rect_w = 190, rect_h = 47\<rparr>], bases = []\<rparr>"


section \<open>Properties of SpriteSheet.get_image\<close>





section \<open>What each step of the player leaves unchanged\<close>

lemma next_frame_fields:
  assumes "next_frame now fl d fr fl' p = Inr p'"
  shows "vel p' = vel p" and "pos p' = pos p" and "acc_p p' = acc_p p"
    and "jumping p' = jumping p" and "running p' = running p"
    and "standing_frames_r p' = standing_frames_r p"
    and "standing_frames_l p' = standing_frames_l p"
    and "run_frames_r p' = run_frames_r p" and "run_frames_l p' = run_frames_l p"
    and "rect_bottom (rect p') = rect_bottom (rect p)"
  using assms
  by (auto simp: next_frame_def Let_def rect_bottom_def set_bottom_def get_rect_def
           split: sum.splits)

lemma animate_run_fields:
  assumes "animate_run cfg now p = Inr p'"
  shows "vel p' = vel p" and "pos p' = pos p" and "acc_p p' = acc_p p"
    and "jumping p' = jumping p" and "running p' = running p"
    and "standing_frames_r p' = standing_frames_r p"
    and "standing_frames_l p' = standing_frames_l p"
    and "run_frames_r p' = run_frames_r p" and "run_frames_l p' = run_frames_l p"
    and "rect_bottom (rect p') = rect_bottom (rect p)"
  using assms
  by (auto simp: animate_run_def split: if_splits dest: next_frame_fields)

lemma animate_idle_fields:
  assumes "animate_idle cfg now p = Inr p'"
  shows "vel p' = vel p" and "pos p' = pos p" and "acc_p p' = acc_p p"
    and "jumping p' = jumping p" and "running p' = running p"
    and "standing_frames_r p' = standing_frames_r p"
    and "standing_frames_l p' = standing_frames_l p"
    and "run_frames_r p' = run_frames_r p" and "run_frames_l p' = run_frames_l p"
    and "rect_bottom (rect p') = rect_bottom (rect p)"
  using assms
  by (auto simp: animate_idle_def split: if_splits dest: next_frame_fields)

lemma animate_InrD:
  assumes "animate cfg now p = Inr p'"
  obtains p2 p3 where "animate_run cfg now (p\<lparr>running := (vec_x (vel p) \<noteq> 0)\<rparr>) = Inr p2"
    and "animate_idle cfg now p2 = Inr p3" and "p' = p3\<lparr>mask_p := Some (image_p p3)\<rparr>"
  using assms by (auto simp: animate_def Let_def split: sum.splits)

lemma animate_fields:
  assumes "animate cfg now p = Inr p'"
  shows "vel p' = vel p" and "pos p' = pos p" and "acc_p p' = acc_p p"
    and "jumping p' = jumping p"
    and "standing_frames_r p' = standing_frames_r p"
    and "standing_frames_l p' = standing_frames_l p"
    and "run_frames_r p' = run_frames_r p" and "run_frames_l p' = run_frames_l p"
    and "rect_bottom (rect p') = rect_bottom (rect p)"
proof -
  from assms obtain p2 p3
    where r: "animate_run cfg now (p\<lparr>running := (vec_x (vel p) \<noteq> 0)\<rparr>) = Inr p2"
      and i: "animate_idle cfg now p2 = Inr p3"
      and e: "p' = p3\<lparr>mask_p := Some (image_p p3)\<rparr>"
    by (rule animate_InrD)
  show "vel p' = vel p" and "pos p' = pos p" and "acc_p p' = acc_p p"
    and "jumping p' = jumping p"
    and "standing_frames_r p' = standing_frames_r p"
    and "standing_frames_l p' = standing_frames_l p"
    and "run_frames_r p' = run_frames_r p" and "run_frames_l p' = run_frames_l p"
    and "rect_bottom (rect p') = rect_bottom (rect p)"
    using animate_run_fields [OF r] animate_idle_fields [OF i] e by simp_all
qed

lemma update_InrD:
  assumes "update cfg ks now p = Inr p'"
  obtains pa where "animate cfg now p = Inr pa"
    and "p' = position_step (velocity_step cfg (input_step cfg ks pa))"
  using assms by (auto simp: update_def split: sum.splits)

lemma input_step_fields:
  "vel (input_step cfg ks p) = vel p" "pos (input_step cfg ks p) = pos p"
  "rect (input_step cfg ks p) = rect p" "jumping (input_step cfg ks p) = jumping p"
  "standing_frames_r (input_step cfg ks p) = standing_frames_r p"
  "standing_frames_l (input_step cfg ks p) = standing_frames_l p"
  "run_frames_r (input_step cfg ks p) = run_frames_r p"
  "run_frames_l (input_step cfg ks p) = run_frames_l p"
  "vec_y (acc_p (input_step cfg ks p)) = PLAYER_GRAV cfg"
  "vec_x (acc_p (input_step cfg ks p)) =
     (if K_LEFT ks then - PLAYER_ACC cfg else if K_RIGHT ks then PLAYER_ACC cfg else 0)"
  by (simp_all add: input_step_def Let_def)

lemma velocity_step_fields:
  "pos (velocity_step cfg p) = pos p"
  "rect (velocity_step cfg p) = rect p" "jumping (velocity_step cfg p) = jumping p"
  "standing_frames_r (velocity_step cfg p) = standing_frames_r p"
  "standing_frames_l (velocity_step cfg p) = standing_frames_l p"
  "run_frames_r (velocity_step cfg p) = run_frames_r p"
  "run_frames_l (velocity_step cfg p) = run_frames_l p"
  "acc_p (velocity_step cfg p) =
     (acc_p p)\<lparr>vec_x := vec_x (acc_p p) - vec_x (vel p) * PLAYER_FRICTION cfg\<rparr>"
  "vec_y (vel (velocity_step cfg p)) = vec_y (vel p) + vec_y (acc_p p)"
  "vec_x (vel (velocity_step cfg p)) =
     (if \<bar>vec_x (vel p) + (vec_x (acc_p p) - vec_x (vel p) * PLAYER_FRICTION cfg)\<bar> < 0.1
      then 0
      else vec_x (vel p) + (vec_x (acc_p p) - vec_x (vel p) * PLAYER_FRICTION cfg))"
  by (simp_all add: velocity_step_def Let_def vec_add_def)

lemma position_step_fields:
  "vel (position_step p) = vel p" "acc_p (position_step p) = acc_p p"
  "jumping (position_step p) = jumping p"
  "standing_frames_r (position_step p) = standing_frames_r p"
  "standing_frames_l (position_step p) = standing_frames_l p"
  "run_frames_r (position_step p) = run_frames_r p"
  "run_frames_l (position_step p) = run_frames_l p"
  "vec_y (pos (position_step p)) = vec_y (pos p) + (vec_y (vel p) + 0.5 * vec_y (acc_p p))"
  "vec_x (pos (position_step p)) =
     (if rect_left (rect p) < 0 then real_of_int (rect_left (rect p) + 50)
      else vec_x (pos p) + (vec_x (vel p) + 0.5 * vec_x (acc_p p)))"
  "rect (position_step p) = set_midbottom (rect p) (pos (position_step p))"
  by (simp_all add: position_step_def Let_def vec_add_def vec_scale_def)

lemma jump_fields:
  "jumping p \<Longrightarrow> jumping (jump cfg g p)"
  by (simp add: jump_def Let_def)

lemma jump_cut_jumping: "jumping (jump_cut cfg p) = jumping p"
  by (simp add: jump_cut_def)

section \<open>Animation never fails on loaded frames\<close>

lemma py_index_mod:
  assumes "xs \<noteq> []" and "length xs \<le> length ys"
  shows "\<exists>y. py_index ys (a mod int (length xs)) = Inr y"
proof -
  from assms have "0 \<le> a mod int (length xs)" and "a mod int (length xs) < int (length xs)"
    by simp_all
  moreover from this assms have "a mod int (length xs) < int (length ys)"
    by linarith
  ultimately show ?thesis by (simp add: py_index_def)
qed

lemma next_frame_total:
  assumes "fl \<noteq> []" and "length fl \<le> length (if d then fr else fl')"
  shows "\<exists>p'. next_frame now fl d fr fl' p = Inr p'"
proof -
  obtain y where "py_index (if d then fr else fl') ((current_frame p + 1) mod int (length fl))
                    = Inr y"
    using py_index_mod [OF assms] by blast
  with assms show ?thesis
    by (simp add: next_frame_def Let_def py_mod_def)
qed

lemma animate_run_total:
  assumes "frames_ok p"
  shows "\<exists>p'. animate_run cfg now p = Inr p'"
  using assms next_frame_total [of "run_frames_l p" "vec_x (vel p) > 0" "run_frames_r p"
      "run_frames_l p" now p]
  by (simp add: animate_run_def frames_ok_def)

lemma animate_idle_total:
  assumes "frames_ok p"
  shows "\<exists>p'. animate_idle cfg now p = Inr p'"
  using assms next_frame_total [of "standing_frames_r p" "vec_x (pos p) > 0"
      "standing_frames_r p" "standing_frames_l p" now p]
  by (simp add: animate_idle_def frames_ok_def)

lemma animate_total:
  assumes "frames_ok p"
  shows "\<exists>p'. animate cfg now p = Inr p' \<and> frames_ok p'"
proof -
  let ?p1 = "p\<lparr>running := (vec_x (vel p) \<noteq> 0)\<rparr>"
  from assms have ok1: "frames_ok ?p1" by (simp add: frames_ok_def)
  then obtain p2 where r: "animate_run cfg now ?p1 = Inr p2"
    using animate_run_total by blast
  with ok1 have ok2: "frames_ok p2"
    by (simp add: frames_ok_def animate_run_fields [OF r])
  then obtain p3 where i: "animate_idle cfg now p2 = Inr p3"
    using animate_idle_total by blast
  with ok2 have ok3: "frames_ok p3"
    by (simp add: frames_ok_def animate_idle_fields [OF i])
  from r i have "animate cfg now p = Inr (p3\<lparr>mask_p := Some (image_p p3)\<rparr>)"
    by (simp add: animate_def Let_def)
  moreover from ok3 have "frames_ok (p3\<lparr>mask_p := Some (image_p p3)\<rparr>)"
    by (simp add: frames_ok_def)
  ultimately show ?thesis by blast
qed

lemma update_total:
  assumes "frames_ok p"
  shows "\<exists>p'. update cfg ks now p = Inr p' \<and> frames_ok p'"
proof -
  from assms obtain pa where a: "animate cfg now p = Inr pa" and ok: "frames_ok pa"
    using animate_total by blast
  from ok have "frames_ok (position_step (velocity_step cfg (input_step cfg ks pa)))"
    by (simp add: frames_ok_def position_step_fields velocity_step_fields input_step_fields)
  with a show ?thesis by (simp add: update_def)
qed

section \<open>Player.jump and Player.jump_cut\<close>

text \<open>
  C2: a jump requested while the player is airborne changes nothing. A jump requested
  while the player is not airborne, with the rect moved 2 pixels to the right
  intersecting some member of the platform group or of the base group, sets the vertical
  velocity to \<open>- PLAYER_JUMP_VEL\<close> and makes the player airborne.
\<close>

theorem jump_gating:
  "(jumping p \<longrightarrow> jump cfg g p = p)
   \<and> (\<not> jumping p
      \<and> (\<exists>t \<in> set (platforms g) \<union> set (bases g).
            colliderect ((rect p)\<lparr>rect_x := rect_x (rect p) + 2\<rparr>) t)
      \<longrightarrow> vec_y (vel (jump cfg g p)) = - PLAYER_JUMP_VEL cfg \<and> jumping (jump cfg g p))"
proof (intro conjI impI)
  assume "jumping p"
  then show "jump cfg g p = p"
    by (simp add: jump_def Let_def)
next
  assume h: "\<not> jumping p
      \<and> (\<exists>t \<in> set (platforms g) \<union> set (bases g).
            colliderect ((rect p)\<lparr>rect_x := rect_x (rect p) + 2\<rparr>) t)"
  let ?r = "(rect p)\<lparr>rect_x := rect_x (rect p) + 2\<rparr>"
  from h have "spritecollide ?r (platforms g) \<noteq> [] \<or> spritecollide ?r (bases g) \<noteq> []"
    by (auto simp: spritecollide_def filter_empty_conv)
  with h show "vec_y (vel (jump cfg g p)) = - PLAYER_JUMP_VEL cfg"
    and "jumping (jump cfg g p)"
    by (auto simp: jump_def Let_def)
qed

theorem jump_gating_witness:
  "jump example_settings example_game (example_player\<lparr>jumping := True\<rparr>)
     = example_player\<lparr>jumping := True\<rparr>
   \<and> \<not> jumping example_player
   \<and> colliderect ((rect example_player)\<lparr>rect_x := rect_x (rect example_player) + 2\<rparr>)
        \<lparr>rect_x = 0, rect_y = 590, rect_w = 190, rect_h = 47\<rparr>
   \<and> vec_y (vel (jump example_settings example_game example_player)) = - 20
   \<and> jumping (jump example_settings example_game example_player)"
proof -
  let ?r = "(rect example_player)\<lparr>rect_x := rect_x (rect example_player) + 2\<rparr>"
  let ?t = "\<lparr>rect_x = 0, rect_y = 590, rect_w = 190, rect_h = 47\<rparr>"
  have air: "jumping (example_player\<lparr>jumping := True\<rparr>)" by simp
  have ground: "\<not> jumping example_player" by (simp add: example_player_def)
  have hit: "colliderect ?r ?t"
    by (simp add: example_player_def colliderect_def)
  have "?t \<in> set (platforms example_game) \<union> set (bases example_game)"
    by (simp add: example_game_def)
  with hit have probe: "\<exists>t \<in> set (platforms example_game) \<union> set (bases example_game).
      colliderect ?r t"
    by blast
  have vj: "PLAYER_JUMP_VEL example_settings = 20" by (simp add: example_settings_def)
  from jump_gating [of "example_player\<lparr>jumping := True\<rparr>" example_settings example_game]
    air
  have 1: "jump example_settings example_game (example_player\<lparr>jumping := True\<rparr>)
             = example_player\<lparr>jumping := True\<rparr>"
    by blast
  from jump_gating [of example_player example_settings example_game] ground probe
  have 2: "vec_y (vel (jump example_settings example_game example_player))
             = - PLAYER_JUMP_VEL example_settings
           \<and> jumping (jump example_settings example_game example_player)"
    by blast
  from 1 2 ground hit vj show ?thesis by simp
qed

text \<open>
  C5: jump_cut changes the state only when the player is airborne and the vertical
  velocity is below \<open>- JUMP_THRESHOLD\<close>, and then sets the vertical velocity to exactly
  \<open>- JUMP_THRESHOLD\<close>; in every other case it changes nothing. With a threshold that
  is not negative, the magnitude of an upward velocity never grows.
\<close>

theorem jump_cut_spec:
  "(jumping p \<and> vec_y (vel p) < - JUMP_THRESHOLD cfg
      \<longrightarrow> jump_cut cfg p = p\<lparr>vel := (vel p)\<lparr>vec_y := - JUMP_THRESHOLD cfg\<rparr>\<rparr>)
   \<and> (\<not> (jumping p \<and> vec_y (vel p) < - JUMP_THRESHOLD cfg) \<longrightarrow> jump_cut cfg p = p)
   \<and> (0 \<le> JUMP_THRESHOLD cfg \<and> vec_y (vel p) < 0
      \<longrightarrow> \<bar>vec_y (vel (jump_cut cfg p))\<bar> \<le> \<bar>vec_y (vel p)\<bar>)"
  by (auto simp: jump_cut_def)

theorem jump_cut_spec_witness:
  "jumping (example_player\<lparr>jumping := True, vel := \<lparr>vec_x = 0, vec_y = - 20\<rparr>\<rparr>)
   \<and> vec_y (vel (example_player\<lparr>jumping := True, vel := \<lparr>vec_x = 0, vec_y = - 20\<rparr>\<rparr>))
       < - JUMP_THRESHOLD example_settings
   \<and> jump_cut example_settings
        (example_player\<lparr>jumping := True, vel := \<lparr>vec_x = 0, vec_y = - 20\<rparr>\<rparr>)
       = example_player\<lparr>jumping := True, vel := \<lparr>vec_x = 0, vec_y = - 3\<rparr>\<rparr>
   \<and> jump_cut example_settings (example_player\<lparr>vel := \<lparr>vec_x = 0, vec_y = - 20\<rparr>\<rparr>)
       = example_player\<lparr>vel := \<lparr>vec_x = 0, vec_y = - 20\<rparr>\<rparr>
   \<and> 0 \<le> JUMP_THRESHOLD example_settings
   \<and> \<bar>vec_y (vel (jump_cut example_settings
          (example_player\<lparr>jumping := True, vel := \<lparr>vec_x = 0, vec_y = - 20\<rparr>\<rparr>)))\<bar> \<le> 20"
proof -
  let ?up = "example_player\<lparr>jumping := True, vel := \<lparr>vec_x = 0, vec_y = - 20\<rparr>\<rparr>"
  let ?gr = "example_player\<lparr>vel := \<lparr>vec_x = 0, vec_y = - 20\<rparr>\<rparr>"
  have th: "JUMP_THRESHOLD example_settings = 3" by (simp add: example_settings_def)
  have a: "jumping ?up \<and> vec_y (vel ?up) < - JUMP_THRESHOLD example_settings"
    by (simp add: th)
  have b: "\<not> (jumping ?gr \<and> vec_y (vel ?gr) < - JUMP_THRESHOLD example_settings)"
    by (simp add: example_player_def)
  have c: "0 \<le> JUMP_THRESHOLD example_settings \<and> vec_y (vel ?up) < 0"
    by (simp add: th)
  from jump_cut_spec [of ?up example_settings] a c
  have 1: "jump_cut example_settings ?up
             = ?up\<lparr>vel := (vel ?up)\<lparr>vec_y := - JUMP_THRESHOLD example_settings\<rparr>\<rparr>"
    and 3: "\<bar>vec_y (vel (jump_cut example_settings ?up))\<bar> \<le> \<bar>vec_y (vel ?up)\<bar>"
    by blast+
  from jump_cut_spec [of ?gr example_settings] b
  have 2: "jump_cut example_settings ?gr = ?gr"
    by blast
  from 1 have w1: "jump_cut example_settings ?up
      = example_player\<lparr>jumping := True, vel := \<lparr>vec_x = 0, vec_y = - 3\<rparr>\<rparr>"
    by (simp add: th)
  from 3 have w3: "\<bar>vec_y (vel (jump_cut example_settings ?up))\<bar> \<le> 20"
    by simp
  from a c w1 2 w3 show ?thesis by blast
qed

section \<open>The input step of Player.update\<close>

text \<open>
  C10: in the input step, a held left key gives the horizontal acceleration
  \<open>- PLAYER_ACC\<close>; a held right key without the left key gives \<open>PLAYER_ACC\<close>; with
  neither held it stays 0; with both held the left key wins and it is \<open>- PLAYER_ACC\<close>.
  The acceleration that update leaves behind is this value with the friction term added.
\<close>

theorem input_step_acc:
  "(K_LEFT ks \<longrightarrow> vec_x (acc_p (input_step cfg ks p)) = - PLAYER_ACC cfg)
   \<and> (K_RIGHT ks \<and> \<not> K_LEFT ks \<longrightarrow> vec_x (acc_p (input_step cfg ks p)) = PLAYER_ACC cfg)
   \<and> (\<not> K_LEFT ks \<and> \<not> K_RIGHT ks \<longrightarrow> vec_x (acc_p (input_step cfg ks p)) = 0)
   \<and> (K_LEFT ks \<and> K_RIGHT ks \<longrightarrow> vec_x (acc_p (input_step cfg ks p)) = - PLAYER_ACC cfg)
   \<and> (\<forall>p'. update cfg ks now p = Inr p' \<longrightarrow>
         vec_x (acc_p p') = vec_x (acc_p (input_step cfg ks p))
                             - vec_x (vel p) * PLAYER_FRICTION cfg)"
proof -
  have "vec_x (acc_p p') = vec_x (acc_p (input_step cfg ks p))
                             - vec_x (vel p) * PLAYER_FRICTION cfg"
    if "update cfg ks now p = Inr p'" for p'
  proof -
    from that obtain pa where a: "animate cfg now p = Inr pa"
      and e: "p' = position_step (velocity_step cfg (input_step cfg ks pa))"
      by (rule update_InrD)
    show ?thesis
      by (simp add: e position_step_fields velocity_step_fields input_step_fields
            animate_fields [OF a])
  qed
  then show ?thesis by (simp add: input_step_fields)
qed

theorem input_step_acc_witness:
  "vec_x (acc_p (input_step example_settings \<lparr>K_LEFT = True, K_RIGHT = False\<rparr>
                   example_player)) = - 0.5
   \<and> vec_x (acc_p (input_step example_settings \<lparr>K_LEFT = False, K_RIGHT = True\<rparr>
                   example_player)) = 0.5
   \<and> vec_x (acc_p (input_step example_settings \<lparr>K_LEFT = False, K_RIGHT = False\<rparr>
                   example_player)) = 0
   \<and> vec_x (acc_p (input_step example_settings \<lparr>K_LEFT = True, K_RIGHT = True\<rparr>
                   example_player)) = - 0.5
   \<and> update example_settings \<lparr>K_LEFT = True, K_RIGHT = True\<rparr> 0
        (example_player\<lparr>vel := \<lparr>vec_x = 5, vec_y = 0\<rparr>\<rparr>)
      = Inr (example_player
          \<lparr>running := True,
           rect := \<lparr>rect_x = - 20, rect_y = 451, rect_w = 90, rect_h = 100\<rparr>,
           pos := \<lparr>vec_x = 25, vec_y = 551.2\<rparr>,
           vel := \<lparr>vec_x = 3.9, vec_y = 0.8\<rparr>,
           acc_p := \<lparr>vec_x = - 1.1, vec_y = 0.8\<rparr>,
           mask_p := Some \<lparr>surf_w = 90, surf_h = 100\<rparr>\<rparr>)"
proof -
  let ?run = "example_player\<lparr>vel := \<lparr>vec_x = 5, vec_y = 0\<rparr>\<rparr>"
  have ac: "PLAYER_ACC example_settings = 0.5" by (simp add: example_settings_def)
  have l: "vec_x (acc_p (input_step example_settings \<lparr>K_LEFT = True, K_RIGHT = False\<rparr>
                   example_player)) = - PLAYER_ACC example_settings"
    using input_step_acc [of "\<lparr>K_LEFT = True, K_RIGHT = False\<rparr>" example_settings
        example_player 0]
    by simp
  have r: "vec_x (acc_p (input_step example_settings \<lparr>K_LEFT = False, K_RIGHT = True\<rparr>
                   example_player)) = PLAYER_ACC example_settings"
    using input_step_acc [of "\<lparr>K_LEFT = False, K_RIGHT = True\<rparr>" example_settings
        example_player 0]
    by simp
  have n: "vec_x (acc_p (input_step example_settings \<lparr>K_LEFT = False, K_RIGHT = False\<rparr>
                   example_player)) = 0"
    using input_step_acc [of "\<lparr>K_LEFT = False, K_RIGHT = False\<rparr>" example_settings
        example_player 0]
    by simp
  have b: "vec_x (acc_p (input_step example_settings \<lparr>K_LEFT = True, K_RIGHT = True\<rparr>
                   example_player)) = - PLAYER_ACC example_settings"
    using input_step_acc [of "\<lparr>K_LEFT = True, K_RIGHT = True\<rparr>" example_settings
        example_player 0]
    by simp
  have u: "update example_settings \<lparr>K_LEFT = True, K_RIGHT = True\<rparr> 0 ?run
      = Inr (example_player
          \<lparr>running := True,
           rect := \<lparr>rect_x = - 20, rect_y = 451, rect_w = 90, rect_h = 100\<rparr>,
           pos := \<lparr>vec_x = 25, vec_y = 551.2\<rparr>,
           vel := \<lparr>vec_x = 3.9, vec_y = 0.8\<rparr>,
           acc_p := \<lparr>vec_x = - 1.1, vec_y = 0.8\<rparr>,
           mask_p := Some \<lparr>surf_w = 90, surf_h = 100\<rparr>\<rparr>)"
    by (simp add: update_def animate_def animate_run_def animate_idle_def Let_def
        input_step_def velocity_step_def position_step_def vec_add_def vec_scale_def
        set_midbottom_def py_int_def rect_left_def example_player_def example_settings_def)
  from l r n b u show ?thesis by (simp add: ac)
qed

section \<open>Player.animate and Slime.animate\<close>

text \<open>
  C8: animate leaves the bottom edge of the rect where it was, in particular when the
  run branch or the idle branch replaces the image and the rect; and on loaded frame
  lists it returns.
\<close>

theorem animate_keeps_bottom:
  "(frames_ok p \<longrightarrow> (\<exists>p'. animate cfg now p = Inr p'))
   \<and> (\<forall>p'. animate cfg now p = Inr p' \<longrightarrow> rect_bottom (rect p') = rect_bottom (rect p))"
  using animate_total [of p cfg now] animate_fields(9) [of cfg now p]
  by blast

theorem animate_keeps_bottom_witness:
  "frames_ok example_player
   \<and> animate example_settings 1000 example_player
      = Inr (example_player
          \<lparr>current_frame := 1, last_update := 1000,
           image_p := \<lparr>surf_w = 92, surf_h = 104\<rparr>,
           rect := \<lparr>rect_x = 0, rect_y = 496, rect_w = 92, rect_h = 104\<rparr>,
           mask_p := Some \<lparr>surf_w = 92, surf_h = 104\<rparr>\<rparr>)
   \<and> rect_bottom \<lparr>rect_x = 0, rect_y = 496, rect_w = 92, rect_h = 104\<rparr>
      = rect_bottom (rect example_player)"
proof -
  let ?q = "example_player
          \<lparr>current_frame := 1, last_update := 1000,
           image_p := \<lparr>surf_w = 92, surf_h = 104\<rparr>,
           rect := \<lparr>rect_x = 0, rect_y = 496, rect_w = 92, rect_h = 104\<rparr>,
           mask_p := Some \<lparr>surf_w = 92, surf_h = 104\<rparr>\<rparr>"
  have ok: "frames_ok example_player"
    by (simp add: frames_ok_def example_player_def example_standing_def example_run_def)
  have ev: "animate example_settings 1000 example_player = Inr ?q"
    by (simp add: animate_def animate_run_def animate_idle_def next_frame_def Let_def
          py_mod_def py_index_def get_rect_def set_bottom_def rect_bottom_def
          example_player_def example_settings_def example_standing_def)
  from animate_keeps_bottom [of example_player example_settings 1000] ev
  have "rect_bottom (rect ?q) = rect_bottom (rect example_player)"
    by blast
  then have "rect_bottom \<lparr>rect_x = 0, rect_y = 496, rect_w = 92, rect_h = 104\<rparr>
      = rect_bottom (rect example_player)"
    by simp
  with ok ev show ?thesis by blast
qed

text \<open>
  C7, as stated, fails: with an empty list of run frames, a moving player whose run
  interval has elapsed makes animate raise ZeroDivisionError, not ConfigurationError.
\<close>

theorem animate_empty_frames_counterexample:
  "animate example_settings 1000
     (example_player\<lparr>run_frames_r := [], run_frames_l := [], vel := \<lparr>vec_x = 5, vec_y = 0\<rparr>\<rparr>)
     = Inl ZeroDivisionError
   \<and> animate example_settings 1000
     (example_player\<lparr>run_frames_r := [], run_frames_l := [], vel := \<lparr>vec_x = 5, vec_y = 0\<rparr>\<rparr>)
     \<noteq> Inl ConfigurationError"
  by (simp add: animate_def animate_run_def next_frame_def Let_def py_mod_def
        example_player_def example_settings_def)

lemma next_frame_error:
  "next_frame now fl d fr fl' p = Inl e \<Longrightarrow> e = ZeroDivisionError \<or> e = IndexError"
  by (auto simp: next_frame_def Let_def py_mod_def py_index_def split: sum.splits if_splits)

lemma animate_error:
  "animate cfg now p = Inl e \<Longrightarrow> e = ZeroDivisionError \<or> e = IndexError"
  by (auto simp: animate_def animate_run_def animate_idle_def Let_def
           split: sum.splits if_splits dest: next_frame_error)

lemma slime_animate_error:
  "slime_animate now sl = Inl e \<Longrightarrow> e = ZeroDivisionError \<or> e = IndexError"
  by (auto simp: slime_animate_def Let_def py_mod_def py_index_def
           split: sum.splits if_splits)

text \<open>
  C7, amended: when the frame index is advanced modulo the length of an empty frame
  list, \<open>Player.animate\<close> and \<open>Slime.animate\<close> raise Python's ZeroDivisionError: in the
  run branch for an empty \<open>run_frames_l\<close>, in the idle branch for an empty
  \<open>standing_frames_r\<close>, in the slime for an empty \<open>walk_images\<close>. Neither method ever
  raises ConfigurationError.
\<close>

theorem animate_empty_frames:
  "(run_frames_l p = [] \<and> vec_x (vel p) \<noteq> 0 \<and> PLAYER_RUN_FREQ cfg < now - last_update p
      \<longrightarrow> animate cfg now p = Inl ZeroDivisionError)
   \<and> (standing_frames_r p = [] \<and> vec_x (vel p) = 0 \<and> \<not> jumping p
       \<and> PLAYER_IDLE_FREQ cfg < now - last_update p
      \<longrightarrow> animate cfg now p = Inl ZeroDivisionError)
   \<and> (walk_images sl = [] \<and> 180 < now - slime_last_update sl
      \<longrightarrow> slime_animate now sl = Inl ZeroDivisionError)
   \<and> animate cfg now p \<noteq> Inl ConfigurationError
   \<and> slime_animate now sl \<noteq> Inl ConfigurationError"
proof (intro conjI impI)
  assume "run_frames_l p = [] \<and> vec_x (vel p) \<noteq> 0
      \<and> PLAYER_RUN_FREQ cfg < now - last_update p"
  then show "animate cfg now p = Inl ZeroDivisionError"
    by (simp add: animate_def animate_run_def next_frame_def Let_def py_mod_def)
next
  assume "standing_frames_r p = [] \<and> vec_x (vel p) = 0 \<and> \<not> jumping p
       \<and> PLAYER_IDLE_FREQ cfg < now - last_update p"
  then show "animate cfg now p = Inl ZeroDivisionError"
    by (simp add: animate_def animate_run_def animate_idle_def next_frame_def Let_def
          py_mod_def)
next
  assume "walk_images sl = [] \<and> 180 < now - slime_last_update sl"
  then show "slime_animate now sl = Inl ZeroDivisionError"
    by (simp add: slime_animate_def Let_def py_mod_def)
next
  show "animate cfg now p \<noteq> Inl ConfigurationError"
    using animate_error [of cfg now p ConfigurationError] by auto
next
  show "slime_animate now sl \<noteq> Inl ConfigurationError"
    using slime_animate_error [of now sl ConfigurationError] by auto
qed

theorem animate_empty_frames_witness:
  "animate example_settings 1000
     (example_player\<lparr>run_frames_l := [], vel := \<lparr>vec_x = - 5, vec_y = 0\<rparr>\<rparr>)
     = Inl ZeroDivisionError
   \<and> animate example_settings 1000
     (example_player\<lparr>standing_frames_r := []\<rparr>) = Inl ZeroDivisionError
   \<and> slime_animate 181
       \<lparr>slime_current_frame = 0, slime_last_update = 0, walk_images = [],
        slime_image = \<lparr>surf_w = 75, surf_h = 42\<rparr>, slime_mask = None\<rparr>
     = Inl ZeroDivisionError"
proof -
  let ?a = "example_player\<lparr>run_frames_l := [], vel := \<lparr>vec_x = - 5, vec_y = 0\<rparr>\<rparr>"
  let ?b = "example_player\<lparr>standing_frames_r := []\<rparr>"
  let ?s = "\<lparr>slime_current_frame = 0, slime_last_update = 0, walk_images = [],
        slime_image = \<lparr>surf_w = 75, surf_h = 42\<rparr>, slime_mask = None\<rparr>"
  have ha: "run_frames_l ?a = [] \<and> vec_x (vel ?a) \<noteq> 0
      \<and> PLAYER_RUN_FREQ example_settings < 1000 - last_update ?a"
    by (simp add: example_player_def example_settings_def)
  have hb: "standing_frames_r ?b = [] \<and> vec_x (vel ?b) = 0 \<and> \<not> jumping ?b
       \<and> PLAYER_IDLE_FREQ example_settings < 1000 - last_update ?b"
    by (simp add: example_player_def example_settings_def)
  have hs: "walk_images ?s = [] \<and> 180 < 181 - slime_last_update ?s"
    by simp
  from animate_empty_frames [of ?a example_settings 1000 ?s] ha
  have 1: "animate example_settings 1000 ?a = Inl ZeroDivisionError" by blast
  from animate_empty_frames [of ?b example_settings 1000 ?s] hb
  have 2: "animate example_settings 1000 ?b = Inl ZeroDivisionError" by blast
  from animate_empty_frames [of ?a example_settings 181 ?s] hs
  have 3: "slime_animate 181 ?s = Inl ZeroDivisionError" by blast
  from 1 2 3 show ?thesis by blast
qed

section \<open>Player.update: gravity and the left wall\<close>

lemma py_int_of_int: "py_int (real_of_int n) = n"
  by (simp add: py_int_def)

text \<open>
  C3, as stated, fails: from the state that \<open>Player.__init__\<close> builds for a screen
  height of 600, with gravity 0.8 and no key held, one update gives the vertical
  velocity 0.8 and the vertical position 551.2, that is \<open>H - 48.8\<close>, not \<open>H - 49.2\<close>.
\<close>

theorem update_gravity_counterexample:
  "player_init example_settings example_standing example_standing example_run example_run
     = Inr example_player
   \<and> (case update example_settings \<lparr>K_LEFT = False, K_RIGHT = False\<rparr> 0 example_player of
        Inl e \<Rightarrow> None
      | Inr q \<Rightarrow> Some (vec_y (vel q), vec_y (pos q))) = Some (0.8, 551.2)
   \<and> (551.2 :: real) \<noteq> real_of_int (HEIGHT example_settings) - 49.2"
proof -
  have "player_init example_settings example_standing example_standing example_run
      example_run = Inr example_player"
    by (simp add: player_init_def py_index_def example_standing_def example_settings_def
          example_player_def get_rect_def set_center_def)
  moreover have
    "(case update example_settings \<lparr>K_LEFT = False, K_RIGHT = False\<rparr> 0 example_player of
        Inl e \<Rightarrow> None
      | Inr q \<Rightarrow> Some (vec_y (vel q), vec_y (pos q))) = Some (0.8, 551.2)"
    by (simp add: update_def animate_def animate_run_def animate_idle_def Let_def
        input_step_def velocity_step_def position_step_def vec_add_def vec_scale_def
        set_midbottom_def py_int_def rect_left_def example_player_def example_settings_def)
  moreover have "(551.2 :: real) \<noteq> real_of_int (HEIGHT example_settings) - 49.2"
    by (simp add: example_settings_def)
  ultimately show ?thesis by blast
qed

text \<open>
  C3, amended: starting from position \<open>(40, H - 50)\<close> and velocity \<open>(0, 0)\<close>, with the
  gravity constant 0.8 and no directional key held, a single update returns (the
  standing frames being loaded) with vertical velocity 0.8 and vertical position
  \<open>H - 50 + 0.8 + 0.4 = H - 48.8\<close>.
\<close>

theorem update_gravity:
  assumes "pos p = \<lparr>vec_x = 40, vec_y = real_of_int (HEIGHT cfg - 50)\<rparr>"
    and "vel p = \<lparr>vec_x = 0, vec_y = 0\<rparr>"
    and "PLAYER_GRAV cfg = 0.8"
    and "\<not> K_LEFT ks" and "\<not> K_RIGHT ks"
    and "frames_ok p"
  shows "\<exists>p'. update cfg ks now p = Inr p'
           \<and> vec_y (vel p') = 0.8
           \<and> vec_y (pos p') = real_of_int (HEIGHT cfg) - 48.8"
proof -
  from assms(6) obtain p' where u: "update cfg ks now p = Inr p'"
    using update_total by blast
  then obtain pa where a: "animate cfg now p = Inr pa"
    and e: "p' = position_step (velocity_step cfg (input_step cfg ks pa))"
    by (rule update_InrD)
  have v: "vec_y (vel p') = 0.8"
    by (simp add: e position_step_fields velocity_step_fields input_step_fields
          animate_fields [OF a] assms)
  have "vec_y (pos p') = real_of_int (HEIGHT cfg - 50) + (0.8 + 0.5 * 0.8)"
    by (simp add: e position_step_fields velocity_step_fields input_step_fields
          animate_fields [OF a] assms)
  then have "vec_y (pos p') = real_of_int (HEIGHT cfg) - 48.8"
    by simp
  with u v show ?thesis by blast
qed

theorem update_gravity_witness:
  "pos example_player = \<lparr>vec_x = 40, vec_y = real_of_int (HEIGHT example_settings - 50)\<rparr>
   \<and> vel example_player = \<lparr>vec_x = 0, vec_y = 0\<rparr>
   \<and> PLAYER_GRAV example_settings = 0.8
   \<and> frames_ok example_player
   \<and> (\<exists>p'. update example_settings \<lparr>K_LEFT = False, K_RIGHT = False\<rparr> 1000 example_player
             = Inr p'
           \<and> vec_y (vel p') = 0.8 \<and> vec_y (pos p') = 551.2)"
proof -
  have 1: "pos example_player
      = \<lparr>vec_x = 40, vec_y = real_of_int (HEIGHT example_settings - 50)\<rparr>"
    by (simp add: example_player_def example_settings_def)
  have 2: "vel example_player = \<lparr>vec_x = 0, vec_y = 0\<rparr>"
    by (simp add: example_player_def)
  have 3: "PLAYER_GRAV example_settings = 0.8"
    by (simp add: example_settings_def)
  have 4: "frames_ok example_player"
    by (simp add: frames_ok_def example_player_def example_standing_def example_run_def)
  have h: "real_of_int (HEIGHT example_settings) - 48.8 = 551.2"
    by (simp add: example_settings_def)
  from update_gravity [OF 1 2 3 _ _ 4, of "\<lparr>K_LEFT = False, K_RIGHT = False\<rparr>" 1000]
  have "\<exists>p'. update example_settings \<lparr>K_LEFT = False, K_RIGHT = False\<rparr> 1000 example_player
             = Inr p'
           \<and> vec_y (vel p') = 0.8
           \<and> vec_y (pos p') = real_of_int (HEIGHT example_settings) - 48.8"
    by simp
  with h have "\<exists>p'. update example_settings \<lparr>K_LEFT = False, K_RIGHT = False\<rparr> 1000
             example_player = Inr p'
           \<and> vec_y (vel p') = 0.8 \<and> vec_y (pos p') = 551.2"
    by simp
  with 1 2 3 4 show ?thesis by blast
qed

text \<open>
  C1, as stated, fails. The player that \<open>Player.__init__\<close> builds from 90 pixel wide
  frames has its rect's left edge at -25. One update with the left key held takes the
  clamp branch, sets the horizontal position to 25, and leaves the left edge at -20:
  not at 50, and still negative.
\<close>

theorem left_clamp_counterexample:
  "player_init example_settings example_standing example_standing example_run example_run
     = Inr example_player
   \<and> rect_left (rect example_player) = - 25
   \<and> (case update example_settings \<lparr>K_LEFT = True, K_RIGHT = False\<rparr> 0 example_player of
        Inl e \<Rightarrow> None
      | Inr q \<Rightarrow> Some (vec_x (pos q), rect_left (rect q))) = Some (25, - 20)
   \<and> (- 20 :: int) \<noteq> 50 \<and> (- 20 :: int) < 0"
proof -
  have "player_init example_settings example_standing example_standing example_run
      example_run = Inr example_player"
    by (simp add: player_init_def py_index_def example_standing_def example_settings_def
          example_player_def get_rect_def set_center_def)
  moreover have "rect_left (rect example_player) = - 25"
    by (simp add: rect_left_def example_player_def)
  moreover have
    "(case update example_settings \<lparr>K_LEFT = True, K_RIGHT = False\<rparr> 0 example_player of
        Inl e \<Rightarrow> None
      | Inr q \<Rightarrow> Some (vec_x (pos q), rect_left (rect q))) = Some (25, - 20)"
    by (simp add: update_def animate_def animate_run_def animate_idle_def Let_def
        input_step_def velocity_step_def position_step_def vec_add_def vec_scale_def
        set_midbottom_def py_int_def rect_left_def example_player_def example_settings_def)
  ultimately show ?thesis by simp
qed

text \<open>
  C1, amended: if the left edge of the rect, as animate left it, is negative at the
  clamp step of update, the horizontal position is set to that left edge plus 50; after
  the rect is resynchronized from the position its horizontal centre is at that value,
  so its left edge is the old left edge plus 50 minus half the rect's width.
\<close>

theorem left_clamp:
  assumes "animate cfg now p = Inr pa"
    and "rect_left (rect pa) < 0"
  shows "\<exists>p'. update cfg ks now p = Inr p'
           \<and> vec_x (pos p') = real_of_int (rect_left (rect pa) + 50)
           \<and> rect_centerx (rect p') = rect_left (rect pa) + 50
           \<and> rect_left (rect p') = rect_left (rect pa) + 50 - rect_w (rect pa) div 2"
proof -
  let ?p' = "position_step (velocity_step cfg (input_step cfg ks pa))"
  have u: "update cfg ks now p = Inr ?p'"
    by (simp add: update_def assms(1))
  have x: "vec_x (pos ?p') = real_of_int (rect_left (rect pa) + 50)"
    using assms(2)
    by (simp add: position_step_fields velocity_step_fields input_step_fields)
  have r: "rect ?p' = set_midbottom (rect pa) (pos ?p')"
    by (simp add: position_step_fields velocity_step_fields input_step_fields)
  have i: "py_int (vec_x (pos ?p')) = rect_left (rect pa) + 50"
    unfolding x by (rule py_int_of_int)
  have l: "rect_left (rect ?p') = rect_left (rect pa) + 50 - rect_w (rect pa) div 2"
    unfolding r by (simp add: set_midbottom_def rect_left_def i [unfolded rect_left_def])
  have c: "rect_centerx (rect ?p') = rect_left (rect pa) + 50"
    unfolding r
    by (simp add: set_midbottom_def rect_centerx_def rect_left_def i [unfolded rect_left_def])
  from u x l c show ?thesis by blast
qed

theorem left_clamp_witness:
  "animate example_settings 0 example_player
     = Inr (example_player\<lparr>mask_p := Some \<lparr>surf_w = 90, surf_h = 100\<rparr>\<rparr>)
   \<and> rect_left (rect (example_player\<lparr>mask_p := Some \<lparr>surf_w = 90, surf_h = 100\<rparr>\<rparr>)) < 0
   \<and> (\<exists>p'. update example_settings \<lparr>K_LEFT = True, K_RIGHT = False\<rparr> 0 example_player
             = Inr p'
           \<and> vec_x (pos p') = 25 \<and> rect_centerx (rect p') = 25
           \<and> rect_left (rect p') = - 20)"
proof -
  let ?pa = "example_player\<lparr>mask_p := Some \<lparr>surf_w = 90, surf_h = 100\<rparr>\<rparr>"
  have a: "animate example_settings 0 example_player = Inr ?pa"
    by (simp add: animate_def animate_run_def animate_idle_def Let_def
          example_player_def example_settings_def)
  have l: "rect_left (rect ?pa) = - 25"
    by (simp add: rect_left_def example_player_def)
  then have n: "rect_left (rect ?pa) < 0" by simp
  have w: "rect_w (rect ?pa) = 90"
    by (simp add: example_player_def)
  from left_clamp [OF a n, of "\<lparr>K_LEFT = True, K_RIGHT = False\<rparr>"]
  have "\<exists>p'. update example_settings \<lparr>K_LEFT = True, K_RIGHT = False\<rparr> 0 example_player
             = Inr p'
           \<and> vec_x (pos p') = 25 \<and> rect_centerx (rect p') = 25
           \<and> rect_left (rect p') = - 20"
    unfolding l w by simp
  with a n show ?thesis by blast
qed

section \<open>The airborne flag\<close>

lemma apply_call_jumping:
  assumes "jumping p" and "apply_call cfg c p = Inr p'"
  shows "jumping p'"
proof (cases c)
  case (Update ks now)
  with assms(2) obtain pa where a: "animate cfg now p = Inr pa"
    and e: "p' = position_step (velocity_step cfg (input_step cfg ks pa))"
    by (auto elim: update_InrD)
  from assms(1) show ?thesis
    by (simp add: e position_step_fields velocity_step_fields input_step_fields
          animate_fields [OF a])
next
  case (Animate now)
  with assms show ?thesis by (simp add: animate_fields)
next
  case (Jump g)
  with assms show ?thesis by (auto simp: jump_fields)
next
  case JumpCut
  with assms show ?thesis by (auto simp: jump_cut_jumping)
qed

lemma apply_call_sets_jumping:
  assumes "\<not> jumping p" and "apply_call cfg c p = Inr p'" and "jumping p'"
  shows "\<exists>g. c = Jump g"
proof (cases c)
  case (Update ks now)
  with assms(2) obtain pa where a: "animate cfg now p = Inr pa"
    and e: "p' = position_step (velocity_step cfg (input_step cfg ks pa))"
    by (auto elim: update_InrD)
  from assms(3) have "jumping p"
    by (simp add: e position_step_fields velocity_step_fields input_step_fields
          animate_fields [OF a])
  with assms(1) show ?thesis by simp
next
  case (Animate now)
  with assms show ?thesis by (simp add: animate_fields)
next
  case (Jump g)
  then show ?thesis by simp
next
  case JumpCut
  with assms show ?thesis by (auto simp: jump_cut_jumping)
qed

text \<open>
  C6: a call of update, animate or jump_cut never turns the airborne flag on, and once
  the flag is on, every state reached by any sequence of update, animate, jump and
  jump_cut calls has it on: no operation of the module clears it.
\<close>

theorem jumping_never_cleared:
  "(\<not> jumping p \<and> apply_call cfg c p = Inr p' \<and> jumping p' \<longrightarrow> (\<exists>g. c = Jump g))
   \<and> (jumping p \<longrightarrow> list_all jumping (states_after cfg cs p))"
proof (intro conjI impI)
  assume "\<not> jumping p \<and> apply_call cfg c p = Inr p' \<and> jumping p'"
  then show "\<exists>g. c = Jump g"
    using apply_call_sets_jumping by blast
next
  assume "jumping p"
  then show "list_all jumping (states_after cfg cs p)"
  proof (induction cs arbitrary: p)
    case Nil
    then show ?case by simp
  next
    case (Cons c cs)
    show ?case
    proof (cases "apply_call cfg c p")
      case (Inl e)
      then show ?thesis by simp
    next
      case (Inr q)
      with Cons.prems have "jumping q"
        using apply_call_jumping by blast
      with Cons.IH [of q] Inr show ?thesis by simp
    qed
  qed
qed

theorem jumping_never_cleared_witness:
  "\<not> jumping example_player
   \<and> jumping (jump example_settings example_game example_player)
   \<and> length (states_after example_settings
        [Update \<lparr>K_LEFT = False, K_RIGHT = True\<rparr> 16, JumpCut, Animate 1000,
         Jump example_game, Update \<lparr>K_LEFT = False, K_RIGHT = False\<rparr> 1016]
        (jump example_settings example_game example_player)) = 5
   \<and> list_all jumping (states_after example_settings
        [Update \<lparr>K_LEFT = False, K_RIGHT = True\<rparr> 16, JumpCut, Animate 1000,
         Jump example_game, Update \<lparr>K_LEFT = False, K_RIGHT = False\<rparr> 1016]
        (jump example_settings example_game example_player))"
proof -
  let ?cs = "[Update \<lparr>K_LEFT = False, K_RIGHT = True\<rparr> 16, JumpCut, Animate 1000,
         Jump example_game, Update \<lparr>K_LEFT = False, K_RIGHT = False\<rparr> 1016]"
  let ?j = "jump example_settings example_game example_player"
  have g: "\<not> jumping example_player" by (simp add: example_player_def)
  have j: "jumping ?j"
    by (simp add: jump_def Let_def spritecollide_def colliderect_def example_player_def
          example_game_def)
  have ok: "frames_ok ?j"
    by (simp add: jump_def Let_def frames_ok_def example_player_def example_standing_def
          example_run_def)
  obtain q1 where 1: "update example_settings \<lparr>K_LEFT = False, K_RIGHT = True\<rparr> 16 ?j = Inr q1"
    and ok1: "frames_ok q1"
    using update_total [OF ok] by blast
  have ok2: "frames_ok (jump_cut example_settings q1)"
    using ok1 by (simp add: frames_ok_def jump_cut_def)
  obtain q3 where 3: "animate example_settings 1000 (jump_cut example_settings q1) = Inr q3"
    and ok3: "frames_ok q3"
    using animate_total [OF ok2] by blast
  have ok4: "frames_ok (jump example_settings example_game q3)"
    using ok3 by (simp add: frames_ok_def jump_def Let_def)
  obtain q5 where 5: "update example_settings \<lparr>K_LEFT = False, K_RIGHT = False\<rparr> 1016
      (jump example_settings example_game q3) = Inr q5"
    using update_total [OF ok4] by blast
  from 1 3 5 have len: "length (states_after example_settings ?cs ?j) = 5"
    by simp
  from jumping_never_cleared [of ?j example_settings _ _ ?cs] j
  have "list_all jumping (states_after example_settings ?cs ?j)"
    by blast
  with g j len show ?thesis by blast
qed

section \<open>Friction brings the player to rest\<close>

lemma update_no_keys_vel:
  assumes "update cfg ks now p = Inr p'" and "\<not> K_LEFT ks" and "\<not> K_RIGHT ks"
  shows "vec_x (vel p') = friction_tick cfg (vec_x (vel p))"
proof -
  from assms(1) obtain pa where a: "animate cfg now p = Inr pa"
    and e: "p' = position_step (velocity_step cfg (input_step cfg ks pa))"
    by (rule update_InrD)
  show ?thesis
    by (simp add: e position_step_fields velocity_step_fields input_step_fields
          animate_fields [OF a] assms(2,3) friction_tick_def Let_def)
qed

lemma run_updates_no_keys:
  assumes "frames_ok p" and "list_all no_keys ticks"
  shows "\<exists>p'. run_updates cfg ticks p = Inr p'
           \<and> vec_x (vel p') = (friction_tick cfg ^^ length ticks) (vec_x (vel p))"
  using assms
proof (induction ticks arbitrary: p)
  case Nil
  then show ?case by simp
next
  case (Cons t ticks)
  obtain ks now where t: "t = (ks, now)" by (cases t)
  from Cons.prems(2) have nt: "no_keys t" and rest: "list_all no_keys ticks"
    by simp_all
  from nt t have nk: "\<not> K_LEFT ks" "\<not> K_RIGHT ks"
    by (simp_all add: no_keys_def)
  from Cons.prems(1) obtain p1 where u: "update cfg ks now p = Inr p1" and ok: "frames_ok p1"
    using update_total by blast
  from Cons.IH [OF ok rest] obtain p' where r: "run_updates cfg ticks p1 = Inr p'"
    and v: "vec_x (vel p') = (friction_tick cfg ^^ length ticks) (vec_x (vel p1))"
    by blast
  have "vec_x (vel p1) = friction_tick cfg (vec_x (vel p))"
    using update_no_keys_vel [OF u nk] .
  with v have "vec_x (vel p') = (friction_tick cfg ^^ length (t # ticks)) (vec_x (vel p))"
    by (simp add: funpow_swap1)
  moreover from u r t have "run_updates cfg (t # ticks) p = Inr p'"
    by simp
  ultimately show ?case by blast
qed

lemma friction_tick_eq:
  "friction_tick cfg v = 0 \<or> friction_tick cfg v = v * (1 - PLAYER_FRICTION cfg)"
  by (simp add: friction_tick_def Let_def algebra_simps)

lemma friction_tick_zero: "friction_tick cfg 0 = 0"
  by (simp add: friction_tick_def)

lemma friction_tick_dead: "friction_tick cfg v = 0 \<or> 0.1 \<le> \<bar>friction_tick cfg v\<bar>"
  by (simp add: friction_tick_def Let_def)

lemma friction_pow_eq:
  "(friction_tick cfg ^^ n) v = 0 \<or> (friction_tick cfg ^^ n) v = v * (1 - PLAYER_FRICTION cfg) ^ n"
proof (induction n)
  case 0
  then show ?case by simp
next
  case (Suc n)
  let ?w = "(friction_tick cfg ^^ n) v"
  from friction_tick_eq [of cfg ?w] Suc show ?case
    by (auto simp: friction_tick_zero)
qed

lemma friction_pow_rest:
  assumes "1 \<le> n" and "\<bar>v\<bar> * \<bar>1 - PLAYER_FRICTION cfg\<bar> ^ n < 0.1"
  shows "(friction_tick cfg ^^ n) v = 0"
proof (rule ccontr)
  assume nz: "(friction_tick cfg ^^ n) v \<noteq> 0"
  from assms(1) obtain m where n: "n = Suc m" by (cases n) auto
  from nz friction_tick_dead [of cfg "(friction_tick cfg ^^ m) v"]
  have big: "0.1 \<le> \<bar>(friction_tick cfg ^^ n) v\<bar>"
    by (simp add: n)
  from nz friction_pow_eq [of n cfg v]
  have "(friction_tick cfg ^^ n) v = v * (1 - PLAYER_FRICTION cfg) ^ n"
    by blast
  then have "\<bar>(friction_tick cfg ^^ n) v\<bar> = \<bar>v\<bar> * \<bar>1 - PLAYER_FRICTION cfg\<bar> ^ n"
    by (simp add: abs_mult power_abs)
  with big assms(2) show False by simp
qed

lemma friction_bound_exists:
  assumes "0 < f" and "f < 2"
  shows "\<exists>n. 1 \<le> n \<and> \<bar>v\<bar> * \<bar>1 - f\<bar> ^ n < (0.1 :: real)"
proof -
  let ?r = "\<bar>1 - f\<bar>"
  from assms have r: "0 \<le> ?r" "?r < 1" by auto
  have "0 < 0.1 / (\<bar>v\<bar> + 1)" by simp
  with r(2) obtain n where n: "?r ^ n < 0.1 / (\<bar>v\<bar> + 1)"
    using real_arch_pow_inv by blast
  have "?r ^ Suc n \<le> ?r ^ n"
    using r by (simp add: mult_left_le_one_le)
  with n have "?r ^ Suc n < 0.1 / (\<bar>v\<bar> + 1)" by simp
  moreover have pos: "0 < \<bar>v\<bar> + 1" by simp
  ultimately have "?r ^ Suc n * (\<bar>v\<bar> + 1) < 0.1"
    by (simp only: pos_less_divide_eq [OF pos])
  moreover have "\<bar>v\<bar> * ?r ^ Suc n \<le> ?r ^ Suc n * (\<bar>v\<bar> + 1)"
    using r(1) by (simp add: algebra_simps)
  ultimately have "\<bar>v\<bar> * ?r ^ Suc n < 0.1" by simp
  then show ?thesis by (intro exI [of _ "Suc n"]) simp
qed

text \<open>
  C4: with no directional key held, the horizontal velocity reaches exactly 0 after
  finitely many ticks, whatever it was at the start: there is a number of ticks from
  which on every run of updates returns with horizontal velocity 0. The statement is
  for a friction coefficient between 0.01 and 1, which includes the 0.12 of the
  specification; it names no particular tick, since the tick at which the code's
  floats fall below 0.1 can differ from the one of the exact arithmetic used here.
\<close>

theorem friction_convergence:
  assumes "1 / 100 \<le> PLAYER_FRICTION cfg" and "PLAYER_FRICTION cfg \<le> 1"
    and "frames_ok p"
  shows "\<exists>N. \<forall>ticks. N \<le> length ticks \<and> list_all no_keys ticks
          \<longrightarrow> (\<exists>p'. run_updates cfg ticks p = Inr p' \<and> vec_x (vel p') = 0)"
proof -
  let ?r = "\<bar>1 - PLAYER_FRICTION cfg\<bar>"
  from assms(1,2) have f: "0 < PLAYER_FRICTION cfg" "PLAYER_FRICTION cfg < 2" by simp_all
  then have r: "0 \<le> ?r" "?r \<le> 1" by auto
  from friction_bound_exists [OF f] obtain N
    where N: "1 \<le> N" "\<bar>vec_x (vel p)\<bar> * ?r ^ N < 0.1"
    by blast
  have "\<exists>p'. run_updates cfg ticks p = Inr p' \<and> vec_x (vel p') = 0"
    if h: "N \<le> length ticks \<and> list_all no_keys ticks" for ticks
  proof -
    from h r have "?r ^ length ticks \<le> ?r ^ N"
      by (intro power_decreasing) simp_all
    then have "\<bar>vec_x (vel p)\<bar> * ?r ^ length ticks \<le> \<bar>vec_x (vel p)\<bar> * ?r ^ N"
      by (intro mult_left_mono) simp_all
    with N(2) have small: "\<bar>vec_x (vel p)\<bar> * ?r ^ length ticks < 0.1" by simp
    from h N(1) have len: "1 \<le> length ticks" by simp
    from h assms(3) obtain p' where run: "run_updates cfg ticks p = Inr p'"
      and v: "vec_x (vel p') = (friction_tick cfg ^^ length ticks) (vec_x (vel p))"
      using run_updates_no_keys by blast
    from v friction_pow_rest [OF len small] have "vec_x (vel p') = 0" by simp
    with run show ?thesis by blast
  qed
  then show ?thesis by blast
qed

theorem friction_convergence_witness:
  "1 / 100 \<le> PLAYER_FRICTION example_settings \<and> PLAYER_FRICTION example_settings \<le> 1
   \<and> frames_ok (example_player\<lparr>vel := \<lparr>vec_x = 5, vec_y = 0\<rparr>\<rparr>)
   \<and> (\<exists>N. \<forall>ticks. N \<le> length ticks \<and> list_all no_keys ticks
          \<longrightarrow> (\<exists>p'. run_updates example_settings ticks
                      (example_player\<lparr>vel := \<lparr>vec_x = 5, vec_y = 0\<rparr>\<rparr>) = Inr p'
                  \<and> vec_x (vel p') = 0))"
proof -
  let ?p = "example_player\<lparr>vel := \<lparr>vec_x = 5, vec_y = 0\<rparr>\<rparr>"
  have f: "PLAYER_FRICTION example_settings = 0.12" by (simp add: example_settings_def)
  have 1: "1 / 100 \<le> PLAYER_FRICTION example_settings"
    and 2: "PLAYER_FRICTION example_settings \<le> 1"
    by (simp_all add: f)
  have 3: "frames_ok ?p"
    by (simp add: frames_ok_def example_player_def example_standing_def example_run_def)
  from friction_convergence [OF 1 2 3] 1 2 3 show ?thesis by blast
qed

end
